theory Spec2Isabelle
  imports Main "HOL-Library.Char_ord" "HOL-Library.List_Lexorder"
begin

section \<open>Python values\<close>

text \<open>
  The module \<^verbatim>\<open>schema.py\<close> works on arbitrary Python objects: a schema description
  and the data it validates are both plain objects, told apart only by their run-time
  shape. The model has one universe \<open>obj\<close> for both. It holds \<^verbatim>\<open>None\<close>, booleans,
  integers, strings, lists, tuples, dictionaries (association lists in insertion order,
  the order in which Python iterates them), type objects, named functions, and the
  instances of the five classes of the module with their fields:
  \<^item> \<open>Schema s e w\<close>: \<^verbatim>\<open>_schema\<close>, \<^verbatim>\<open>_error\<close>, \<^verbatim>\<open>_allow_wrong_keys\<close>;
  \<^item> \<open>Optional s e w d\<close>: the same, and \<open>d = Some v\<close> when the attributes
    \<^verbatim>\<open>default = v\<close> and \<^verbatim>\<open>key = s\<close> are set;
  \<^item> \<open>And args e w\<close>, \<open>Or args e w\<close>: \<^verbatim>\<open>_args\<close>, \<^verbatim>\<open>_error\<close>, \<^verbatim>\<open>_allow_wrong_keys\<close>;
  \<^item> \<open>Use c e\<close>: \<^verbatim>\<open>_callable\<close>, \<^verbatim>\<open>_error\<close>.
  An error override is a string or \<^verbatim>\<open>None\<close> (\<open>string option\<close>); the wrong-keys flag is
  \<^verbatim>\<open>True\<close>, \<^verbatim>\<open>False\<close> or \<^verbatim>\<open>None\<close> (\<open>bool option\<close>). Floats, sets and
  frozensets, and instances of classes defined elsewhere are outside the model.
\<close>

datatype pytype =
    TNoneType | TBool | TInt | TFloat | TStr | TList | TTuple | TSet | TFrozenset | TDict
  | TFunction | TType | TSchema | TOptional | TAnd | TOr | TUse | TObject

datatype obj =
    PyNone
  | PyBool bool
  | PyInt int
  | PyStr string
  | PyList "obj list"
  | PyTuple "obj list"
  | PyDict "(obj \<times> obj) list"
  | PyType pytype
  | PyFunc string
  | Schema obj "string option" "bool option"
  | Optional obj "string option" "bool option" "obj option"
  | And "obj list" "string option" "bool option"
  | Or "obj list" "string option" "bool option"
  | Use obj "string option"

section \<open>SchemaError\<close>

text \<open>
  \<^verbatim>\<open>SchemaError.__init__\<close> stores \<^verbatim>\<open>autos\<close> and \<^verbatim>\<open>errors\<close> as lists: an
  argument that is a list is kept, anything else becomes a one-element list. An entry of
  either list is a message or \<^verbatim>\<open>None\<close>.
\<close>

type_synonym msg = "string option"

record SchemaError =
  autos :: "msg list"
  errors :: "msg list"
  missing_keys :: "obj list option"
  invalid_keys :: "obj list option"
  wrong_keys :: "obj list option"

datatype 'a arg = IsList "'a list" | NotList 'a

fun as_list :: "'a arg \<Rightarrow> 'a list" where
  "as_list (IsList xs) = xs"
| "as_list (NotList x) = [x]"

definition SchemaError_init ::
  "msg arg \<Rightarrow> msg arg \<Rightarrow> obj list option \<Rightarrow> obj list option \<Rightarrow> obj list option \<Rightarrow> SchemaError" where
  "SchemaError_init a e mk ik wk =
     \<lparr>autos = as_list a, errors = as_list e, missing_keys = mk, invalid_keys = ik, wrong_keys = wk\<rparr>"

text \<open>
  The property \<^verbatim>\<open>code\<close>. The inner \<^verbatim>\<open>uniq\<close> walks the sequence once with the set
  \<^verbatim>\<open>seen\<close> of the elements already kept; \<^verbatim>\<open>'\n'.join\<close> is \<open>join\<close> with the newline.
\<close>

fun uniq_loop :: "'a set \<Rightarrow> 'a list \<Rightarrow> 'a list" where
  "uniq_loop seen [] = []"
| "uniq_loop seen (x # xs) =
     (if x \<notin> seen then x # uniq_loop (insert x seen) xs else uniq_loop seen xs)"

definition uniq :: "'a list \<Rightarrow> 'a list" where
  "uniq seq = uniq_loop {} seq"

fun join :: "string \<Rightarrow> string list \<Rightarrow> string" where
  "join sep [] = []"
| "join sep [x] = x"
| "join sep (x # y # ys) = x @ sep @ join sep (y # ys)"

definition newline :: string where
  "newline = [CHR 0x0A]"

definition code :: "SchemaError \<Rightarrow> string" where
  "code x =
     (let a = uniq [the i. i \<leftarrow> autos x, i \<noteq> None];
          e = uniq [the i. i \<leftarrow> errors x, i \<noteq> None]
      in if e \<noteq> [] then join newline e else join newline a)"

text \<open>
  The rendering as the specification words it: the messages that are present, with
  duplicates removed so that each message stays at its first occurrence.
\<close>

fun dedup_first :: "'a list \<Rightarrow> 'a list" where
  "dedup_first [] = []"
| "dedup_first (x # xs) = x # dedup_first (removeAll x xs)"

definition present :: "msg list \<Rightarrow> string list" where
  "present ms = [the m. m \<leftarrow> ms, m \<noteq> None]"

definition render_spec :: "msg list \<Rightarrow> msg list \<Rightarrow> string" where
  "render_spec auto_chain custom_chain =
     (if dedup_first (present custom_chain) \<noteq> []
      then join newline (dedup_first (present custom_chain))
      else join newline (dedup_first (present auto_chain)))"

section \<open>Results, exceptions and the host\<close>

text \<open>
  A call returns a value or raises. \<open>SchemaErr\<close> is a raised \<^verbatim>\<open>SchemaError\<close>;
  \<open>PyError c\<close> is any other exception, of class \<open>c\<close> (a \<^verbatim>\<open>TypeError\<close> of the
  interpreter, a failed \<^verbatim>\<open>assert\<close>, whatever a user function raises).
\<close>

datatype exn = SchemaErr SchemaError | PyError string

datatype result = Return obj | Raise exn

text \<open>
  What the module takes from the Python run time and from its caller is a parameter of
  the model, the record \<open>host\<close>: \<open>py_repr\<close> is \<^verbatim>\<open>repr\<close> on objects whose class the
  module does not define, \<open>py_str\<close> is \<^verbatim>\<open>str\<close>, \<open>exn_repr\<close> is \<^verbatim>\<open>repr\<close> of a
  caught exception, and \<open>py_call c d\<close> is the call \<^verbatim>\<open>c(d)\<close> of a callable (a user
  function or a type such as \<^verbatim>\<open>int\<close>).
\<close>

record host =
  py_repr :: "obj \<Rightarrow> string"
  py_str :: "obj \<Rightarrow> string"
  exn_repr :: "exn \<Rightarrow> string"
  py_call :: "obj \<Rightarrow> obj \<Rightarrow> result"

section \<open>Types, attributes, equality\<close>

fun type_of :: "obj \<Rightarrow> pytype" where
  "type_of PyNone = TNoneType"
| "type_of (PyBool b) = TBool"
| "type_of (PyInt n) = TInt"
| "type_of (PyStr s) = TStr"
| "type_of (PyList xs) = TList"
| "type_of (PyTuple xs) = TTuple"
| "type_of (PyDict kvs) = TDict"
| "type_of (PyType t) = TType"
| "type_of (PyFunc f) = TFunction"
| "type_of (Schema s e w) = TSchema"
| "type_of (Optional s e w d) = TOptional"
| "type_of (And args e w) = TAnd"
| "type_of (Or args e w) = TOr"
| "type_of (Use c e) = TUse"

text \<open>
  The class hierarchy: every class derives from \<^verbatim>\<open>object\<close>, \<^verbatim>\<open>bool\<close> from
  \<^verbatim>\<open>int\<close>, \<^verbatim>\<open>Optional\<close> from \<^verbatim>\<open>Schema\<close> and \<^verbatim>\<open>Or\<close> from \<^verbatim>\<open>And\<close>.
\<close>

definition issubclass :: "pytype \<Rightarrow> pytype \<Rightarrow> bool" where
  "issubclass t u =
     (t = u \<or> u = TObject \<or> (t = TBool \<and> u = TInt) \<or> (t = TOptional \<and> u = TSchema)
      \<or> (t = TOr \<and> u = TAnd))"

definition isinstance :: "obj \<Rightarrow> pytype \<Rightarrow> bool" where
  "isinstance d t = issubclass (type_of d) t"

fun type_name :: "pytype \<Rightarrow> string" where
  "type_name TNoneType = ''NoneType''"
| "type_name TBool = ''bool''"
| "type_name TInt = ''int''"
| "type_name TFloat = ''float''"
| "type_name TStr = ''str''"
| "type_name TList = ''list''"
| "type_name TTuple = ''tuple''"
| "type_name TSet = ''set''"
| "type_name TFrozenset = ''frozenset''"
| "type_name TDict = ''dict''"
| "type_name TFunction = ''function''"
| "type_name TType = ''type''"
| "type_name TSchema = ''Schema''"
| "type_name TOptional = ''Optional''"
| "type_name TAnd = ''And''"
| "type_name TOr = ''Or''"
| "type_name TUse = ''Use''"
| "type_name TObject = ''object''"

text \<open>
  \<^verbatim>\<open>hasattr(s, 'validate')\<close> holds of the instances of the five classes and of the
  classes themselves; \<^verbatim>\<open>callable(s)\<close> holds of functions and types.
\<close>

fun hasattr_validate :: "obj \<Rightarrow> bool" where
  "hasattr_validate (Schema s e w) = True"
| "hasattr_validate (Optional s e w d) = True"
| "hasattr_validate (And args e w) = True"
| "hasattr_validate (Or args e w) = True"
| "hasattr_validate (Use c e) = True"
| "hasattr_validate (PyType t) = (t \<in> {TSchema, TOptional, TAnd, TOr, TUse})"
| "hasattr_validate s = False"

fun callable :: "obj \<Rightarrow> bool" where
  "callable (PyFunc f) = True"
| "callable (PyType t) = True"
| "callable s = False"

text \<open>Truth value of an object, as \<^verbatim>\<open>if\<close> and \<^verbatim>\<open>not\<close> take it.\<close>

fun truthy :: "obj \<Rightarrow> bool" where
  "truthy PyNone = False"
| "truthy (PyBool b) = b"
| "truthy (PyInt n) = (n \<noteq> 0)"
| "truthy (PyStr s) = (s \<noteq> [])"
| "truthy (PyList xs) = (xs \<noteq> [])"
| "truthy (PyTuple xs) = (xs \<noteq> [])"
| "truthy (PyDict kvs) = (kvs \<noteq> [])"
| "truthy s = True"

fun flag_truthy :: "bool option \<Rightarrow> bool" where
  "flag_truthy None = False"
| "flag_truthy (Some b) = b"

text \<open>
  \<^verbatim>\<open>==\<close> and hashing. A boolean equals the integer 0 or 1 it stands for, also inside
  tuples; otherwise two objects of the model are equal when they are the same value.
  Lists and dictionaries cannot be hashed, nor can a tuple that holds one.
\<close>

fun norm :: "obj \<Rightarrow> obj" where
  "norm (PyBool b) = PyInt (if b then 1 else 0)"
| "norm (PyTuple xs) = PyTuple (map norm xs)"
| "norm s = s"

definition py_eq :: "obj \<Rightarrow> obj \<Rightarrow> bool" where
  "py_eq a b = (norm a = norm b)"

fun hashable :: "obj \<Rightarrow> bool" where
  "hashable (PyList xs) = False"
| "hashable (PyDict kvs) = False"
| "hashable (PyTuple xs) = list_all hashable xs"
| "hashable s = True"

text \<open>The assignment \<^verbatim>\<open>d[k] = v\<close>: an equal key keeps its place and takes the value.\<close>

fun dict_set :: "(obj \<times> obj) list \<Rightarrow> obj \<Rightarrow> obj \<Rightarrow> (obj \<times> obj) list" where
  "dict_set [] k v = [(k, v)]"
| "dict_set ((k', v') # kvs) k v =
     (if py_eq k' k then (k', v) # kvs else (k', v') # dict_set kvs k v)"

section \<open>Representations\<close>

text \<open>
  \<^verbatim>\<open>__repr__\<close> of \<^verbatim>\<open>Schema\<close> (inherited by \<^verbatim>\<open>Optional\<close>), of \<^verbatim>\<open>And\<close>
  (inherited by \<^verbatim>\<open>Or\<close>) and of \<^verbatim>\<open>Use\<close>; every other object is the host's.
\<close>

fun repr :: "host \<Rightarrow> obj \<Rightarrow> string" where
  "repr h (Schema s e w) = ''Schema('' @ repr h s @ '')''"
| "repr h (Optional s e w d) = ''Optional('' @ repr h s @ '')''"
| "repr h (And args e w) = ''And('' @ join '', '' (map (repr h) args) @ '')''"
| "repr h (Or args e w) = ''Or('' @ join '', '' (map (repr h) args) @ '')''"
| "repr h (Use c e) = ''Use('' @ repr h c @ '')''"
| "repr h s = py_repr h s"

text \<open>
  A format with one \<^verbatim>\<open>%r\<close> and a right operand that is not wrapped in a tuple:
  a tuple operand is taken as the argument list, so it must have exactly one element.
\<close>

fun format_r :: "host \<Rightarrow> obj \<Rightarrow> string option" where
  "format_r h (PyTuple [k]) = Some (repr h k)"
| "format_r h (PyTuple ks) = None"
| "format_r h k = Some (repr h k)"

fun callable_str :: "host \<Rightarrow> obj \<Rightarrow> string" where
  "callable_str h (PyFunc f) = f"
| "callable_str h (PyType t) = type_name t"
| "callable_str h c = py_str h c"

section \<open>The flavor classifier\<close>

text \<open>The six flavors, numbered as \<^verbatim>\<open>range(6)\<close> numbers them; \<open>TYPE'\<close> is \<^verbatim>\<open>TYPE\<close>.\<close>

datatype flavor = COMPARABLE | CALLABLE | VALIDATOR | TYPE' | DICT | ITERABLE

fun flavor_rank :: "flavor \<Rightarrow> nat" where
  "flavor_rank COMPARABLE = 0"
| "flavor_rank CALLABLE = 1"
| "flavor_rank VALIDATOR = 2"
| "flavor_rank TYPE' = 3"
| "flavor_rank DICT = 4"
| "flavor_rank ITERABLE = 5"

definition priority :: "obj \<Rightarrow> flavor" where
  "priority s =
     (if type_of s \<in> {TList, TTuple, TSet, TFrozenset} then ITERABLE
      else if type_of s = TDict then DICT
      else if issubclass (type_of s) TType then TYPE'
      else if hasattr_validate s then VALIDATOR
      else if callable s then CALLABLE
      else COMPARABLE)"

text \<open>
  \<^verbatim>\<open>Schema._dict_key_priority\<close> adds 0.5 for an \<^verbatim>\<open>Optional\<close> key. The model doubles
  every priority, so that it stays a natural number; the order is the same.
\<close>

fun dict_key_priority :: "obj \<Rightarrow> nat" where
  "dict_key_priority (Optional s e w d) = 2 * flavor_rank (priority s) + 1"
| "dict_key_priority s = 2 * flavor_rank (priority s)"

section \<open>Validation\<close>

definition validate_type :: "host \<Rightarrow> string option \<Rightarrow> pytype \<Rightarrow> obj \<Rightarrow> result" where
  "validate_type h e t data =
     (if isinstance data t then Return data
      else Raise (SchemaErr (SchemaError_init
             (NotList (Some (repr h data @ '' should be instance of '' @ repr h (PyStr (type_name t)))))
             (NotList e) None None None)))"

definition comparable_validate :: "host \<Rightarrow> string option \<Rightarrow> obj \<Rightarrow> obj \<Rightarrow> result" where
  "comparable_validate h e s data =
     (if py_eq s data then Return data
      else Raise (SchemaErr (SchemaError_init
             (NotList (Some (repr h s @ '' does not match '' @ repr h data)))
             (NotList e) None None None)))"

definition rewrap :: "string option \<Rightarrow> SchemaError \<Rightarrow> exn" where
  "rewrap e x = SchemaErr (SchemaError_init (IsList (None # autos x)) (IsList (e # errors x)) None None None)"

definition callable_validate :: "host \<Rightarrow> string option \<Rightarrow> obj \<Rightarrow> obj \<Rightarrow> result" where
  "callable_validate h e s data =
     (case py_call h s data of
        Return r \<Rightarrow>
          if truthy r then Return data
          else Raise (SchemaErr (SchemaError_init
                 (NotList (Some (callable_str h s @ ''('' @ repr h data @ '') should evaluate to True'')))
                 (NotList e) None None None))
      | Raise (SchemaErr x) \<Rightarrow> Raise (rewrap e x)
      | Raise ex \<Rightarrow>
          Raise (SchemaErr (SchemaError_init
            (NotList (Some (callable_str h s @ ''('' @ repr h data @ '') raised '' @ exn_repr h ex)))
            (NotList e) None None None)))"

definition validator_validate :: "host \<Rightarrow> string option \<Rightarrow> obj \<Rightarrow> obj \<Rightarrow> result \<Rightarrow> result" where
  "validator_validate h e s data r =
     (case r of
        Return v \<Rightarrow> Return v
      | Raise (SchemaErr x) \<Rightarrow> Raise (rewrap e x)
      | Raise ex \<Rightarrow>
          Raise (SchemaErr (SchemaError_init
            (NotList (Some (repr h s @ ''.validate('' @ repr h data @ '') raised '' @ exn_repr h ex)))
            (NotList e) None None None)))"

definition Use_validate :: "host \<Rightarrow> obj \<Rightarrow> string option \<Rightarrow> obj \<Rightarrow> result" where
  "Use_validate h c e data =
     (case py_call h c data of
        Return v \<Rightarrow> Return v
      | Raise (SchemaErr x) \<Rightarrow> Raise (rewrap e x)
      | Raise ex \<Rightarrow>
          Raise (SchemaErr (SchemaError_init
            (NotList (Some (callable_str h c @ ''('' @ repr h data @ '') raised '' @ exn_repr h ex)))
            (NotList e) None None None)))"

fun and_loop :: "(obj \<Rightarrow> obj \<Rightarrow> result) \<Rightarrow> obj list \<Rightarrow> obj \<Rightarrow> result" where
  "and_loop V [] data = Return data"
| "and_loop V (s # ss) data =
     (case V s data of Return d \<Rightarrow> and_loop V ss d | Raise ex \<Rightarrow> Raise ex)"

fun or_loop ::
  "host \<Rightarrow> (obj \<Rightarrow> obj \<Rightarrow> result) \<Rightarrow> obj \<Rightarrow> string option \<Rightarrow> obj list \<Rightarrow> obj \<Rightarrow> SchemaError \<Rightarrow> result" where
  "or_loop h V self e [] data x =
     Raise (SchemaErr (SchemaError_init
       (IsList (Some (repr h self @ '' did not validate '' @ repr h data) # autos x))
       (IsList (e # errors x)) None None None))"
| "or_loop h V self e (s # ss) data x =
     (case V s data of
        Return v \<Rightarrow> Return v
      | Raise (SchemaErr x') \<Rightarrow> or_loop h V self e ss data x'
      | Raise ex \<Rightarrow> Raise ex)"

fun each_element :: "(obj \<Rightarrow> result) \<Rightarrow> obj list \<Rightarrow> exn + obj list" where
  "each_element f [] = Inr []"
| "each_element f (d # ds) =
     (case f d of
        Raise ex \<Rightarrow> Inl ex
      | Return v \<Rightarrow> (case each_element f ds of Inl ex \<Rightarrow> Inl ex | Inr vs \<Rightarrow> Inr (v # vs)))"

lemma and_loop_cong [fundef_cong]:
  "args = args' \<Longrightarrow> data = data' \<Longrightarrow> (\<And>a d. a \<in> set args' \<Longrightarrow> V a d = V' a d)
   \<Longrightarrow> and_loop V args data = and_loop V' args' data'"
  by (induction args' arbitrary: args data data') (auto split: result.splits)

lemma or_loop_cong [fundef_cong]:
  "args = args' \<Longrightarrow> data = data' \<Longrightarrow> x = x' \<Longrightarrow> (\<And>a. a \<in> set args' \<Longrightarrow> V a data' = V' a data')
   \<Longrightarrow> or_loop h V self e args data x = or_loop h V' self e args' data' x'"
  by (induction args' arbitrary: args x x') (auto split: result.splits exn.splits)

lemma each_element_cong [fundef_cong]:
  "ds = ds' \<Longrightarrow> (\<And>d. d \<in> set ds' \<Longrightarrow> f d = f' d) \<Longrightarrow> each_element f ds = each_element f' ds'"
  by (induction ds' arbitrary: ds) (auto split: result.splits sum.splits)

definition sorted_skeys :: "(obj \<times> obj) list \<Rightarrow> (nat \<times> obj \<times> obj) list" where
  "sorted_skeys items =
     sort_key (\<lambda>(i, skey, svalue). dict_key_priority skey) (zip [0..<length items] items)"

datatype match = Matched nat obj obj | NoMatch | Raised exn

fun dict_cands ::
  "(obj \<Rightarrow> obj \<Rightarrow> result) \<Rightarrow> (nat \<times> obj \<times> obj) list \<Rightarrow> obj \<Rightarrow> obj \<Rightarrow> SchemaError option
   \<Rightarrow> match \<times> SchemaError option" where
  "dict_cands V [] key value x = (NoMatch, x)"
| "dict_cands V ((i, skey, svalue) # rest) key value x =
     (case V skey key of
        Raise (SchemaErr kx) \<Rightarrow> dict_cands V rest key value x
      | Raise ex \<Rightarrow> (Raised ex, x)
      | Return nkey \<Rightarrow>
          (case V svalue value of
             Raise (SchemaErr vx) \<Rightarrow>
               (Raised (SchemaErr (vx\<lparr>invalid_keys := Some [key]\<rparr>)),
                Some (vx\<lparr>invalid_keys := Some [key]\<rparr>))
           | Raise ex \<Rightarrow> (Raised ex, x)
           | Return nvalue \<Rightarrow> (Matched i nkey nvalue, x)))"

definition last_skey :: "(nat \<times> obj \<times> obj) list \<Rightarrow> obj" where
  "last_skey cands = (if cands = [] then PyNone else fst (snd (last cands)))"

type_synonym matcher_state = "(obj \<times> obj) list \<times> SchemaError option \<times> nat set"

fun dict_pairs ::
  "host \<Rightarrow> (obj \<Rightarrow> obj \<Rightarrow> result) \<Rightarrow> string option \<Rightarrow> (nat \<times> obj \<times> obj) list
   \<Rightarrow> (obj \<times> obj) list \<Rightarrow> matcher_state \<Rightarrow> exn + matcher_state" where
  "dict_pairs h V e cands [] st = Inr st"
| "dict_pairs h V e cands ((key, value) # rest) (new, x, coverage) =
     (case dict_cands V cands key value x of
        (Raised ex, x') \<Rightarrow> Inl ex
      | (Matched i nkey nvalue, x') \<Rightarrow>
          if hashable nkey
          then dict_pairs h V e cands rest (dict_set new nkey nvalue, x', insert i coverage)
          else Inl (PyError ''TypeError'')
      | (NoMatch, x') \<Rightarrow>
          if last_skey cands \<noteq> PyNone \<and> x' \<noteq> None
          then (case format_r h key of
                  None \<Rightarrow> Inl (PyError ''TypeError'')
                | Some kr \<Rightarrow>
                    Inl (SchemaErr (SchemaError_init
                      (IsList (Some (''Invalid value for key '' @ kr) # autos (the x')))
                      (IsList (e # errors (the x'))) None (Some [key]) None)))
          else dict_pairs h V e cands rest (new, x', coverage))"

fun apply_defaults ::
  "(nat \<times> obj \<times> obj) list \<Rightarrow> nat set \<Rightarrow> (obj \<times> obj) list \<Rightarrow> (obj \<times> obj) list" where
  "apply_defaults [] coverage new = new"
| "apply_defaults ((i, Optional s e w (Some d), svalue) # rest) coverage new =
     (if i \<notin> coverage then apply_defaults rest coverage (dict_set new s d)
      else apply_defaults rest coverage new)"
| "apply_defaults ((i, skey, svalue) # rest) coverage new = apply_defaults rest coverage new"

definition dict_finish ::
  "host \<Rightarrow> string option \<Rightarrow> bool option \<Rightarrow> (obj \<times> obj) list \<Rightarrow> (obj \<times> obj) list
   \<Rightarrow> (obj \<times> obj) list \<Rightarrow> nat set \<Rightarrow> result" where
  "dict_finish h e w s data new coverage =
     (let indexed = zip [0..<length s] s;
          required = [i. (i, k, v) \<leftarrow> indexed, type_of k \<noteq> TOptional]
      in if \<not> set required \<subseteq> coverage
         then (let missing_keys = [k. (i, k, v) \<leftarrow> indexed, type_of k \<noteq> TOptional, i \<notin> coverage]
               in Raise (SchemaErr (SchemaError_init
                    (NotList (Some (''Missing keys: '' @ join '', '' (map (repr h) missing_keys))))
                    (NotList e) (Some missing_keys) None None)))
         else if \<not> flag_truthy w \<and> length new \<noteq> length data
         then (let wrong_keys =
                     sort_key (repr h) [k. (k, v) \<leftarrow> data, \<not> list_ex (\<lambda>(k', v'). py_eq k' k) new]
               in Raise (SchemaErr (SchemaError_init
                    (NotList (Some (''Wrong keys '' @ join '', '' (map (repr h) wrong_keys)
                                    @ '' in '' @ repr h (PyDict data))))
                    (NotList e) None None (Some wrong_keys))))
         else Return (PyDict (apply_defaults indexed coverage new)))"

fun dict_items :: "obj \<Rightarrow> (obj \<times> obj) list" where
  "dict_items (PyDict kvs) = kvs"
| "dict_items d = []"

definition dict_validate ::
  "host \<Rightarrow> (obj \<Rightarrow> obj \<Rightarrow> result) \<Rightarrow> string option \<Rightarrow> bool option \<Rightarrow> (obj \<times> obj) list \<Rightarrow> obj \<Rightarrow> result" where
  "dict_validate h V e w s data =
     (case validate_type h e TDict data of
        Raise ex \<Rightarrow> Raise ex
      | Return data' \<Rightarrow>
          (case dict_pairs h V e (sorted_skeys s) (dict_items data') ([], None, {}) of
             Inl ex \<Rightarrow> Raise ex
           | Inr (new, x, coverage) \<Rightarrow> dict_finish h e w s (dict_items data') new coverage))"

fun elements :: "obj \<Rightarrow> obj list" where
  "elements (PyList xs) = xs"
| "elements (PyTuple xs) = xs"
| "elements d = []"

fun rebuild :: "obj \<Rightarrow> obj list \<Rightarrow> obj" where
  "rebuild (PyTuple xs) vs = PyTuple vs"
| "rebuild d vs = PyList vs"

definition empty_error :: SchemaError where
  "empty_error = SchemaError_init (IsList []) (IsList []) None None None"

definition iterable_validate ::
  "host \<Rightarrow> (obj \<Rightarrow> obj \<Rightarrow> result) \<Rightarrow> string option \<Rightarrow> pytype \<Rightarrow> obj list \<Rightarrow> obj \<Rightarrow> result" where
  "iterable_validate h V e t s data =
     (case validate_type h e t data of
        Raise ex \<Rightarrow> Raise ex
      | Return data' \<Rightarrow>
          (case each_element (\<lambda>d. or_loop h V (Or s e None) e s d empty_error) (elements data') of
             Inl ex \<Rightarrow> Raise ex
           | Inr vs \<Rightarrow> Return (rebuild data' vs)))"

lemma dict_cands_cong:
  assumes "\<And>i k v d. (i, k, v) \<in> set cands \<Longrightarrow> V k d = V' k d"
    and "\<And>i k v d. (i, k, v) \<in> set cands \<Longrightarrow> V v d = V' v d"
  shows "dict_cands V cands key val x = dict_cands V' cands key val x"
  using assms
proof (induction cands)
  case Nil
  then show ?case by simp
next
  case (Cons c cands)
  obtain i k v where c: "c = (i, k, v)" by (cases c)
  have k: "V k key = V' k key" using Cons.prems(1) [of i k v key] c by simp
  have v: "V v val = V' v val" using Cons.prems(2) [of i k v val] c by simp
  have ih: "dict_cands V cands key val x = dict_cands V' cands key val x"
  proof (rule Cons.IH)
    show "V k' d = V' k' d" if "(i', k', v') \<in> set cands" for i' k' v' d
      using that Cons.prems(1) [of i' k' v' d] by simp
    show "V v' d = V' v' d" if "(i', k', v') \<in> set cands" for i' k' v' d
      using that Cons.prems(2) [of i' k' v' d] by simp
  qed
  show ?case unfolding c by (simp add: k v ih split: result.splits exn.splits)
qed

lemma dict_pairs_cong:
  assumes "\<And>i k v d. (i, k, v) \<in> set cands \<Longrightarrow> V k d = V' k d"
    and "\<And>i k v d. (i, k, v) \<in> set cands \<Longrightarrow> V v d = V' v d"
  shows "dict_pairs h V e cands kvs st = dict_pairs h V' e cands kvs st"
proof (induction kvs arbitrary: st)
  case Nil
  then show ?case by simp
next
  case (Cons kv kvs)
  obtain key val where kv: "kv = (key, val)" by (cases kv)
  obtain new x coverage where st: "st = (new, x, coverage)" by (cases st)
  have c: "dict_cands V cands key val x = dict_cands V' cands key val x"
    using assms by (rule dict_cands_cong)
  show ?case unfolding kv st using Cons.IH c
    by (simp split: prod.splits match.splits option.splits)
qed

lemma set_sorted_skeys: "set (sorted_skeys s) = set (zip [0..<length s] s)"
  by (simp add: sorted_skeys_def)

lemma dict_validate_cong [fundef_cong]:
  "s = s' \<Longrightarrow> data = data' \<Longrightarrow> (\<And>k v d. (k, v) \<in> set s' \<Longrightarrow> V k d = V' k d)
   \<Longrightarrow> (\<And>k v d. (k, v) \<in> set s' \<Longrightarrow> V v d = V' v d)
   \<Longrightarrow> dict_validate h V e w s data = dict_validate h V' e w s' data'"
proof -
  assume a: "s = s'" "data = data'" "\<And>k v d. (k, v) \<in> set s' \<Longrightarrow> V k d = V' k d"
    "\<And>k v d. (k, v) \<in> set s' \<Longrightarrow> V v d = V' v d"
  have "\<And>kvs st. dict_pairs h V e (sorted_skeys s') kvs st = dict_pairs h V' e (sorted_skeys s') kvs st"
    by (rule dict_pairs_cong) (use a(3,4) in \<open>auto simp: set_sorted_skeys dest: set_zip_rightD\<close>)
  then show ?thesis using a(1,2) by (auto simp: dict_validate_def split: result.splits)
qed

lemma iterable_validate_cong [fundef_cong]:
  "s = s' \<Longrightarrow> data = data' \<Longrightarrow> (\<And>a d. a \<in> set s' \<Longrightarrow> V a d = V' a d)
   \<Longrightarrow> iterable_validate h V e t s data = iterable_validate h V' e t s' data'"
proof -
  assume a: "s = s'" "data = data'" "\<And>a d. a \<in> set s' \<Longrightarrow> V a d = V' a d"
  have "\<And>d x. or_loop h V (Or s' e None) e s' d x = or_loop h V' (Or s' e None) e s' d x"
    by (rule or_loop_cong) (use a(3) in auto)
  then show ?thesis using a(1,2) by (auto simp: iterable_validate_def split: result.splits)
qed

lemma size_list_member: "a \<in> set xs \<Longrightarrow> size a < Suc (size_list size xs)"
  by (induction xs) auto

lemma size_list_key: "(k, v) \<in> set kvs \<Longrightarrow> size k < Suc (size_list (size_prod size size) kvs)"
  by (induction kvs) auto

lemma size_list_value: "(k, v) \<in> set kvs \<Longrightarrow> size v < Suc (size_list (size_prod size size) kvs)"
  by (induction kvs) auto

function validate :: "host \<Rightarrow> string option \<Rightarrow> bool option \<Rightarrow> obj \<Rightarrow> obj \<Rightarrow> result" where
  "validate h e w (PyList s) data = iterable_validate h (\<lambda>a d. validate h e None a d) e TList s data"
| "validate h e w (PyTuple s) data = iterable_validate h (\<lambda>a d. validate h e None a d) e TTuple s data"
| "validate h e w (PyDict s) data = dict_validate h (\<lambda>a d. validate h e w a d) e w s data"
| "validate h e w (PyType t) data = validate_type h e t data"
| "validate h e w (Schema s' e' w') data =
     validator_validate h e (Schema s' e' w') data (validate h e' w' s' data)"
| "validate h e w (Optional s' e' w' dflt) data =
     validator_validate h e (Optional s' e' w' dflt) data (validate h e' w' s' data)"
| "validate h e w (And args e' w') data =
     validator_validate h e (And args e' w') data (and_loop (\<lambda>a d. validate h e' w' a d) args data)"
| "validate h e w (Or args e' w') data =
     validator_validate h e (Or args e' w') data
       (or_loop h (\<lambda>a d. validate h e' w' a d) (Or args e' w') e' args data empty_error)"
| "validate h e w (Use c e') data =
     validator_validate h e (Use c e') data (Use_validate h c e' data)"
| "validate h e w (PyFunc f) data = callable_validate h e (PyFunc f) data"
| "validate h e w PyNone data = comparable_validate h e PyNone data"
| "validate h e w (PyBool b) data = comparable_validate h e (PyBool b) data"
| "validate h e w (PyInt n) data = comparable_validate h e (PyInt n) data"
| "validate h e w (PyStr t) data = comparable_validate h e (PyStr t) data"
  by pat_completeness auto
termination
  by (relation "measure (\<lambda>(h, e, w, s, data). size s)")
    (auto simp: size_list_member size_list_key size_list_value)

section \<open>The methods and the constructors\<close>

text \<open>
  \<open>validate h e w s data\<close> is \<^verbatim>\<open>Schema(s, error=e, allow_wrong_keys=w).validate(data)\<close>.
  \<open>call_validate h s data\<close> is the call \<^verbatim>\<open>s.validate(data)\<close> on an instance \<open>s\<close> of one
  of the five classes: \<^verbatim>\<open>Schema.validate\<close> (inherited by \<^verbatim>\<open>Optional\<close>),
  \<^verbatim>\<open>And.validate\<close>, \<^verbatim>\<open>Or.validate\<close> and \<^verbatim>\<open>Use.validate\<close>.
\<close>

fun call_validate :: "host \<Rightarrow> obj \<Rightarrow> obj \<Rightarrow> result" where
  "call_validate h (Schema s e w) data = validate h e w s data"
| "call_validate h (Optional s e w d) data = validate h e w s data"
| "call_validate h (And args e w) data = and_loop (validate h e w) args data"
| "call_validate h (Or args e w) data =
     or_loop h (validate h e w) (Or args e w) e args data empty_error"
| "call_validate h (Use c e) data = Use_validate h c e data"
| "call_validate h s data = Raise (PyError ''AttributeError'')"

text \<open>
  The constructors. A keyword argument is \<open>None\<close> when the call does not pass it and
  \<open>Some v\<close> when it passes \<open>v\<close>. \<^verbatim>\<open>Schema.__init__\<close> has the defaults
  \<^verbatim>\<open>error=None, allow_wrong_keys=True\<close>; \<^verbatim>\<open>And.__init__\<close> asserts that at most one
  of the two keywords is passed and reads both with \<^verbatim>\<open>kw.get\<close>; \<^verbatim>\<open>Use.__init__\<close>
  asserts that its argument is callable; \<^verbatim>\<open>Optional.__init__\<close> raises
  \<^verbatim>\<open>TypeError\<close> when a default is passed and the schema is not COMPARABLE.
\<close>

definition kw_get :: "'a option option \<Rightarrow> 'a option" where
  "kw_get k = (case k of None \<Rightarrow> None | Some v \<Rightarrow> v)"

definition Schema_init :: "obj \<Rightarrow> string option option \<Rightarrow> bool option option \<Rightarrow> obj" where
  "Schema_init schema error allow_wrong_keys =
     Schema schema
       (case error of None \<Rightarrow> None | Some v \<Rightarrow> v)
       (case allow_wrong_keys of None \<Rightarrow> Some True | Some v \<Rightarrow> v)"

definition And_init :: "obj list \<Rightarrow> string option option \<Rightarrow> bool option option \<Rightarrow> exn + obj" where
  "And_init args error allow_wrong_keys =
     (if error \<noteq> None \<and> allow_wrong_keys \<noteq> None then Inl (PyError ''AssertionError'')
      else Inr (And args (kw_get error) (kw_get allow_wrong_keys)))"

definition Or_init :: "obj list \<Rightarrow> string option option \<Rightarrow> bool option option \<Rightarrow> exn + obj" where
  "Or_init args error allow_wrong_keys =
     (if error \<noteq> None \<and> allow_wrong_keys \<noteq> None then Inl (PyError ''AssertionError'')
      else Inr (Or args (kw_get error) (kw_get allow_wrong_keys)))"

definition Use_init :: "obj \<Rightarrow> string option \<Rightarrow> exn + obj" where
  "Use_init c error =
     (if callable c then Inr (Use c error) else Inl (PyError ''AssertionError''))"

definition Optional_init ::
  "obj \<Rightarrow> string option option \<Rightarrow> bool option option \<Rightarrow> obj option \<Rightarrow> exn + obj" where
  "Optional_init schema error allow_wrong_keys default_kw =
     (case Schema_init schema error allow_wrong_keys of
        Schema s e w \<Rightarrow>
          (case default_kw of
             None \<Rightarrow> Inr (Optional s e w None)
           | Some d \<Rightarrow>
               if priority s \<noteq> COMPARABLE then Inl (PyError ''TypeError'')
               else Inr (Optional s e w (Some d)))
      | other \<Rightarrow> Inl (PyError ''TypeError''))"

section \<open>A host for the examples\<close>

text \<open>
  The examples run on a small host: \<^verbatim>\<open>repr\<close> of \<^verbatim>\<open>None\<close>, of booleans and of
  strings without quotes or escapes, a call of \<^verbatim>\<open>int\<close> on an integer or on a
  string of decimal digits with an optional sign (\<^verbatim>\<open>ValueError\<close> on any other
  string), and \<^verbatim>\<open>TypeError\<close> for every other call.
\<close>

definition digit_val :: "char \<Rightarrow> int option" where
  "digit_val c = map_of (zip ''0123456789'' [0, 1, 2, 3, 4, 5, 6, 7, 8, 9]) c"

fun parse_digits :: "int \<Rightarrow> string \<Rightarrow> int option" where
  "parse_digits acc [] = Some acc"
| "parse_digits acc (c # cs) =
     (case digit_val c of None \<Rightarrow> None | Some d \<Rightarrow> parse_digits (10 * acc + d) cs)"

fun parse_int :: "string \<Rightarrow> int option" where
  "parse_int [] = None"
| "parse_int (c # cs) =
     (if c = CHR ''-'' then (if cs = [] then None else map_option uminus (parse_digits 0 cs))
      else if c = CHR ''+'' then (if cs = [] then None else parse_digits 0 cs)
      else parse_digits 0 (c # cs))"

definition example_call :: "obj \<Rightarrow> obj \<Rightarrow> result" where
  "example_call c d =
     (if c = PyType TInt
      then (case d of
              PyInt n \<Rightarrow> Return (PyInt n)
            | PyStr s \<Rightarrow>
                (case parse_int s of
                   None \<Rightarrow> Raise (PyError ''ValueError'')
                 | Some n \<Rightarrow> Return (PyInt n))
            | other \<Rightarrow> Raise (PyError ''TypeError''))
      else Raise (PyError ''TypeError''))"

fun example_repr :: "obj \<Rightarrow> string" where
  "example_repr PyNone = ''None''"
| "example_repr (PyBool b) = (if b then ''True'' else ''False'')"
| "example_repr (PyStr s) = [CHR 0x27] @ s @ [CHR 0x27]"
| "example_repr s = ''<object>''"

fun example_exn_repr :: "exn \<Rightarrow> string" where
  "example_exn_repr (SchemaErr x) = ''SchemaError()''"
| "example_exn_repr (PyError c) = c @ ''()''"

definition example_host :: host where
  "example_host =
     \<lparr>py_repr = example_repr, py_str = example_repr, exn_repr = example_exn_repr,
      py_call = example_call\<rparr>"

section \<open>Rendering\<close>

lemma uniq_loop_removeAll:
  "x \<in> seen \<Longrightarrow> uniq_loop seen (removeAll x xs) = uniq_loop seen xs"
  by (induction xs arbitrary: seen) auto

lemma uniq_loop_dedup:
  "uniq_loop seen xs = dedup_first (filter (\<lambda>x. x \<notin> seen) xs)"
proof (induction xs arbitrary: seen rule: length_induct)
  case (1 xs)
  show ?case
  proof (cases xs)
    case Nil
    then show ?thesis by simp
  next
    case (Cons y ys)
    have len: "length (removeAll y ys) < length xs"
      using Cons by (simp add: le_imp_less_Suc length_removeAll_less_eq)
    show ?thesis
    proof (cases "y \<in> seen")
      case True
      then show ?thesis using 1 Cons by simp
    next
      case False
      have "uniq_loop (insert y seen) ys = uniq_loop (insert y seen) (removeAll y ys)"
        by (simp add: uniq_loop_removeAll)
      also have "\<dots> = dedup_first (filter (\<lambda>x. x \<notin> insert y seen) (removeAll y ys))"
        using 1 len by blast
      also have "filter (\<lambda>x. x \<notin> insert y seen) (removeAll y ys)
                 = removeAll y (filter (\<lambda>x. x \<notin> seen) ys)"
        by (induction ys) auto
      finally show ?thesis using False Cons by simp
    qed
  qed
qed

lemma uniq_dedup_first: "uniq xs = dedup_first xs"
  by (simp add: uniq_def uniq_loop_dedup)

lemma present_one: "present (replicate m None @ Some b # replicate n None) = [b]"
  by (simp add: present_def)

text \<open>
  Claim C7. The rendered message \<open>code x\<close> is the rendering the specification
  describes: the custom messages that are present, each kept at its first occurrence and
  joined with newlines, if there is one, and otherwise the auto messages treated the same
  way. In particular a chain whose only custom message is \<open>bad!\<close>, at any position, renders
  as \<open>bad!\<close> whatever its auto messages are.
\<close>

theorem C7_code_rendering:
  "code x = render_spec (autos x) (errors x)
   \<and> code (x\<lparr>errors := replicate m None @ Some ''bad!'' # replicate n None\<rparr>) = ''bad!''"
proof
  show "code x = render_spec (autos x) (errors x)"
    by (simp add: code_def render_spec_def present_def uniq_dedup_first Let_def)
  have "[the i. i \<leftarrow> replicate m None @ Some ''bad!'' # replicate n None, i \<noteq> None] = [''bad!'']"
    using present_one [of m "''bad!''" n] by (simp add: present_def)
  then show "code (x\<lparr>errors := replicate m None @ Some ''bad!'' # replicate n None\<rparr>) = ''bad!''"
    by (simp add: code_def uniq_def Let_def)
qed

section \<open>The combinators and the constructors\<close>

text \<open>
  Claim C10. \<^verbatim>\<open>And()\<close> with no sub-schema can be constructed, and its \<^verbatim>\<open>validate\<close>
  returns every data value unchanged, called directly or through a \<^verbatim>\<open>Schema\<close> that
  wraps it, whatever the error override and the wrong-keys flag are.
\<close>

theorem C10_empty_and_identity:
  "And_init [] None None = Inr (And [] None None)
   \<and> call_validate h (And [] e w) data = Return data
   \<and> validate h e' w' (And [] e w) data = Return data"
  by (simp add: And_init_def kw_get_def validator_validate_def)

lemma priority_comparable:
  "(priority s = COMPARABLE) = (s = PyNone \<or> (\<exists>b. s = PyBool b) \<or> (\<exists>n. s = PyInt n) \<or> (\<exists>t. s = PyStr t))"
  by (cases s) (auto simp: priority_def issubclass_def)

text \<open>
  Claim C9. \<^verbatim>\<open>Optional(s, default=d)\<close> constructs an object exactly when \<open>s\<close> classifies
  as COMPARABLE, that is when \<open>s\<close> is \<^verbatim>\<open>None\<close>, a boolean, an integer or a string;
  for every other shape the constructor itself raises \<^verbatim>\<open>TypeError\<close>, so no
  \<^verbatim>\<open>validate\<close> call is reached.
\<close>

theorem C9_optional_default:
  "(\<exists>opt. Optional_init s error awk (Some d) = Inr opt) = (priority s = COMPARABLE)
   \<and> (Optional_init s error awk (Some d) = Inl (PyError ''TypeError'')) = (priority s \<noteq> COMPARABLE)
   \<and> (priority s = COMPARABLE)
       = (s = PyNone \<or> (\<exists>b. s = PyBool b) \<or> (\<exists>n. s = PyInt n) \<or> (\<exists>t. s = PyStr t))"
  using priority_comparable [of s]
  by (simp add: Optional_init_def Schema_init_def)

lemma and_step:
  "call_validate h (And (s # ss) e w) data =
     (case validate h e w s data of Return d \<Rightarrow> call_validate h (And ss e w) d | Raise ex \<Rightarrow> Raise ex)"
  by (simp split: result.splits)


lemma or_loop_first_success:
  assumes "\<forall>a\<in>set pre. \<exists>x'. V a data = Raise (SchemaErr x')" and "V s data = Return v"
  shows "or_loop h V self e (pre @ s # post) data x = Return v"
  using assms by (induction pre arbitrary: x) auto

lemma or_loop_all_fail:
  assumes "\<forall>a\<in>set args. \<exists>x'. V a data = Raise (SchemaErr x')"
    and "args \<noteq> []" and "V (last args) data = Raise (SchemaErr xl)"
  shows "or_loop h V self e args data x =
           Raise (SchemaErr \<lparr>autos = Some (repr h self @ '' did not validate '' @ repr h data) # autos xl,
                            errors = e # errors xl,
                            missing_keys = None, invalid_keys = None, wrong_keys = None\<rparr>)"
  using assms
proof (induction args arbitrary: x)
  case Nil
  then show ?case by simp
next
  case (Cons a as)
  obtain xa where xa: "V a data = Raise (SchemaErr xa)" using Cons.prems(1) by auto
  show ?case
  proof (cases "as = []")
    case True
    then have "xa = xl" using Cons.prems(3) xa by simp
    then show ?thesis using True xa by (simp add: SchemaError_init_def)
  next
    case False
    then have "or_loop h V self e as data xa =
           Raise (SchemaErr \<lparr>autos = Some (repr h self @ '' did not validate '' @ repr h data) # autos xl,
                            errors = e # errors xl,
                            missing_keys = None, invalid_keys = None, wrong_keys = None\<rparr>)"
      using Cons.IH [of xa] Cons.prems by simp
    then show ?thesis using xa by simp
  qed
qed

text \<open>
  Claim C5. \<^verbatim>\<open>Or(...).validate(data)\<close> validates the same \<open>data\<close> against its
  sub-schemas in the order listed. The first one that returns ends the call with its
  value, whatever comes after it. When every one raises a \<^verbatim>\<open>SchemaError\<close>, the call
  raises a new one: its auto messages are the message that the disjunction did not
  validate the data, followed by the auto messages of the last alternative's error; its
  custom messages are the disjunction's own override followed by the custom messages of
  the last alternative's error. The errors of the earlier alternatives do not appear.
  With no alternative at all both sequences have that first entry only.
\<close>

theorem C5_or_validate:
  "((\<forall>a\<in>set pre. \<exists>x. validate h e w a data = Raise (SchemaErr x))
      \<and> validate h e w s data = Return v
     \<longrightarrow> call_validate h (Or (pre @ s # post) e w) data = Return v)
   \<and> ((\<forall>a\<in>set args. \<exists>x. validate h e w a data = Raise (SchemaErr x))
      \<and> args \<noteq> [] \<and> validate h e w (last args) data = Raise (SchemaErr xl)
     \<longrightarrow> call_validate h (Or args e w) data =
           Raise (SchemaErr
             \<lparr>autos = Some (repr h (Or args e w) @ '' did not validate '' @ repr h data) # autos xl,
              errors = e # errors xl,
              missing_keys = None, invalid_keys = None, wrong_keys = None\<rparr>))
   \<and> call_validate h (Or [] e w) data =
         Raise (SchemaErr
           \<lparr>autos = [Some (repr h (Or [] e w) @ '' did not validate '' @ repr h data)],
            errors = [e],
            missing_keys = None, invalid_keys = None, wrong_keys = None\<rparr>)"
proof (intro conjI impI)
  assume "(\<forall>a\<in>set pre. \<exists>x. validate h e w a data = Raise (SchemaErr x)) \<and> validate h e w s data = Return v"
  then show "call_validate h (Or (pre @ s # post) e w) data = Return v"
    by (simp add: or_loop_first_success)
next
  assume "(\<forall>a\<in>set args. \<exists>x. validate h e w a data = Raise (SchemaErr x))
      \<and> args \<noteq> [] \<and> validate h e w (last args) data = Raise (SchemaErr xl)"
  then show "call_validate h (Or args e w) data =
           Raise (SchemaErr
             \<lparr>autos = Some (repr h (Or args e w) @ '' did not validate '' @ repr h data) # autos xl,
              errors = e # errors xl,
              missing_keys = None, invalid_keys = None, wrong_keys = None\<rparr>)"
    using or_loop_all_fail [of args "validate h e w" data xl h "Or args e w" e empty_error] by simp
next
  show "call_validate h (Or [] e w) data =
         Raise (SchemaErr
           \<lparr>autos = [Some (repr h (Or [] e w) @ '' did not validate '' @ repr h data)],
            errors = [e],
            missing_keys = None, invalid_keys = None, wrong_keys = None\<rparr>)"
    by (simp add: empty_error_def SchemaError_init_def)
qed

lemmas example_defs = example_host_def example_call_def validate_type_def isinstance_def
  issubclass_def SchemaError_init_def

theorem C5_or_validate_witness:
  "call_validate example_host (Or [PyType TInt, PyType TStr] None None) (PyStr ''x'') = Return (PyStr ''x'')
   \<and> call_validate example_host (Or [PyType TInt, PyType TStr] None None) PyNone =
       Raise (SchemaErr
         \<lparr>autos = [Some ''Or(<object>, <object>) did not validate None'',
                   Some (''None should be instance of '' @ [CHR 0x27] @ ''str'' @ [CHR 0x27])],
          errors = [None, None],
          missing_keys = None, invalid_keys = None, wrong_keys = None\<rparr>)"
proof -
  let ?xl = "\<lparr>autos = [Some (''None should be instance of '' @ [CHR 0x27] @ ''str'' @ [CHR 0x27])],
        errors = [None], missing_keys = None, invalid_keys = None, wrong_keys = None\<rparr>"
  have first: "(\<forall>a\<in>set [PyType TInt]. \<exists>x. validate example_host None None a (PyStr ''x'') = Raise (SchemaErr x))
      \<and> validate example_host None None (PyType TStr) (PyStr ''x'') = Return (PyStr ''x'')"
    by (simp add: example_defs)
  have all: "(\<forall>a\<in>set [PyType TInt, PyType TStr]. \<exists>x. validate example_host None None a PyNone = Raise (SchemaErr x))
      \<and> [PyType TInt, PyType TStr] \<noteq> []
      \<and> validate example_host None None (last [PyType TInt, PyType TStr]) PyNone = Raise (SchemaErr ?xl)"
    by (simp add: example_defs)
  show ?thesis
    using C5_or_validate [where pre = "[PyType TInt]" and h = example_host and e = None and w = None
        and data = "PyStr ''x''" and s = "PyType TStr" and v = "PyStr ''x''" and post = "[]"] first
      C5_or_validate [where args = "[PyType TInt, PyType TStr]" and h = example_host and e = None
        and w = None and data = PyNone and xl = ?xl] all
    by (simp add: example_host_def)
qed

end
